theory Spec2Isabelle
  imports Complex_Main "HOL-Library.Log_Nat"
begin

section \<open>Exceptions and outcomes\<close>

text \<open>
  The batch size finder of \<^verbatim>\<open>pytorch_lightning/callbacks/batch_size_finder.py\<close> drives
  a trainer object, catches some exceptions of the trial runs and lets the others
  propagate. Every stateful method of the source is a function from the trainer (and,
  where it writes \<^verbatim>\<open>self\<close>, the finder) to an outcome and the state it leaves behind,
  so the state at the moment an exception propagates is part of the result.

  What a trial run raises is a \<open>trial_error\<close>: \<^verbatim>\<open>RuntimeError oom\<close> is a
  \<^verbatim>\<open>RuntimeError\<close> for which the external \<^verbatim>\<open>is_oom_error(exception)\<close> answers \<open>oom\<close>,
  and \<^verbatim>\<open>OtherException\<close> is any exception that is not a \<^verbatim>\<open>RuntimeError\<close>. The other
  exceptions are the ones the finder and the attribute, dictionary and file accesses it
  makes raise themselves.
\<close>

datatype trial_error = RuntimeError bool | OtherException string

datatype exn =
    MisconfigurationException string
  | AttributeError string
  | KeyError string
  | IndexError
  | FileNotFoundError string
  | TrialError trial_error
  | TunerExitException

datatype 'a outcome = Return 'a | Raise exn

section \<open>The trainer, its loops, dataloaders and model\<close>

text \<open>
  \<^verbatim>\<open>trainer.state.fn\<close> is compared with the strings \<^verbatim>\<open>"fit"\<close> and \<^verbatim>\<open>"validate"\<close>;
  \<^verbatim>\<open>trainer.state.stage\<close> selects attributes by name: \<^verbatim>\<open>f"{stage}_loop"\<close>,
  \<^verbatim>\<open>f"limit_{stage.dataloader_prefix}_batches"\<close>, \<^verbatim>\<open>f"{stage.dataloader_prefix}_dataloaders"\<close>.
  A name the trainer does not have is an \<^verbatim>\<open>AttributeError\<close>. The stages are the
  execution phases fit, validate, test and predict; \<open>dataloader_prefix\<close> is the stage's
  name, but \<^verbatim>\<open>val\<close> for the validation stage. \<open>Tune\<close> is the trainer function that is none
  of the four.
\<close>

datatype trainer_fn = Fit | Validate | Test | Predict | Tune

datatype running_stage = TRAINING | VALIDATING | TESTING | PREDICTING

datatype dl_prefix = PTrain | PVal | PTest | PPredict

datatype loop_name = fit_loop | validate_loop | test_loop | predict_loop

fun dataloader_prefix :: "running_stage \<Rightarrow> dl_prefix" where
  "dataloader_prefix TRAINING = PTrain"
| "dataloader_prefix VALIDATING = PVal"
| "dataloader_prefix TESTING = PTest"
| "dataloader_prefix PREDICTING = PPredict"

fun stage_value :: "running_stage \<Rightarrow> string" where
  "stage_value TRAINING = ''train''"
| "stage_value VALIDATING = ''validate''"
| "stage_value TESTING = ''test''"
| "stage_value PREDICTING = ''predict''"

fun prefix_value :: "dl_prefix \<Rightarrow> string" where
  "prefix_value PTrain = ''train''"
| "prefix_value PVal = ''val''"
| "prefix_value PTest = ''test''"
| "prefix_value PPredict = ''predict''"

text \<open>\<^verbatim>\<open>getattr(trainer, f"{stage}_loop")\<close>: the trainer has a validate, a test and a
  predict loop beside the fit loop.\<close>

fun stage_loop :: "running_stage \<Rightarrow> loop_name outcome" where
  "stage_loop VALIDATING = Return validate_loop"
| "stage_loop TESTING = Return test_loop"
| "stage_loop PREDICTING = Return predict_loop"
| "stage_loop TRAINING = Raise (AttributeError (stage_value TRAINING @ ''_loop''))"

type_synonym state_dict = "(string \<times> nat) list"

record loop =
  progress :: state_dict
  restarting :: bool
  verbose :: "bool option"
  max_steps :: int

text \<open>
  \<open>progress\<close> is what \<^verbatim>\<open>loop.state_dict()\<close> returns and \<^verbatim>\<open>loop.load_state_dict\<close>
  writes; \<^verbatim>\<open>deepcopy\<close> is the identity on values. \<open>verbose\<close> is \<open>None\<close> for a loop
  without that attribute (\<^verbatim>\<open>hasattr(loop, "verbose")\<close>). \<open>max_steps\<close> is read and
  written on the fit loop only; \<^verbatim>\<open>trainer.max_steps\<close> reads the fit loop's field.

  Modelled from the spec: \<^verbatim>\<open>Loop.load_state_dict\<close> (the loop classes are not among the
  sources) reloads the progress state and leaves the loop marked as resuming, the flag
  the finder clears after every reload.
\<close>

definition load_state_dict :: "loop \<Rightarrow> state_dict \<Rightarrow> loop" where
  "load_state_dict l sd = l\<lparr>progress := sd, restarting := True\<rparr>"

record dataloader =
  has_len_all_ranks :: bool
  num_batches :: nat
  dataset_len :: nat

text \<open>
  \<open>has_len_all_ranks\<close> is the answer of the external \<^verbatim>\<open>has_len_all_ranks(dataloader,
  strategy, module)\<close>, \<open>num_batches\<close> is \<^verbatim>\<open>len(dataloader)\<close> and \<open>dataset_len\<close> is
  \<^verbatim>\<open>len(dataloader.dataset)\<close>.
\<close>

record lightning_module =
  attrs :: "string \<rightharpoonup> int"
  hparams :: "(string \<rightharpoonup> int) option"
  weights :: nat

text \<open>
  \<open>weights\<close> stands for the model and optimizer state a checkpoint saves and restores.

  Modelled from the spec: \<^verbatim>\<open>lightning_hasattr\<close>, \<^verbatim>\<open>lightning_getattr\<close> and
  \<^verbatim>\<open>lightning_setattr\<close> of \<^verbatim>\<open>pytorch_lightning.utilities.parsing\<close>, which is not among
  the sources. The store is the model itself or its hyperparameters namespace, the
  first one found wins, and the direct attribute is authoritative when both hold the
  field.
\<close>

definition lightning_hasattr :: "lightning_module \<Rightarrow> string \<Rightarrow> bool" where
  "lightning_hasattr model name =
     (attrs model name \<noteq> None \<or>
      (case hparams model of None \<Rightarrow> False | Some h \<Rightarrow> h name \<noteq> None))"

definition lightning_getattr :: "lightning_module \<Rightarrow> string \<Rightarrow> int outcome" where
  "lightning_getattr model name =
     (case attrs model name of
        Some v \<Rightarrow> Return v
      | None \<Rightarrow>
          (case hparams model of
             None \<Rightarrow> Raise (AttributeError name)
           | Some h \<Rightarrow>
               (case h name of
                  Some v \<Rightarrow> Return v
                | None \<Rightarrow> Raise (AttributeError name))))"

definition lightning_setattr :: "lightning_module \<Rightarrow> string \<Rightarrow> int \<Rightarrow> lightning_module outcome" where
  "lightning_setattr model name v =
     (case attrs model name of
        Some _ \<Rightarrow> Return (model\<lparr>attrs := (attrs model)(name \<mapsto> v)\<rparr>)
      | None \<Rightarrow>
          (case hparams model of
             None \<Rightarrow> Raise (AttributeError name)
           | Some h \<Rightarrow>
               (case h name of
                  Some _ \<Rightarrow> Return (model\<lparr>hparams := Some (h(name \<mapsto> v))\<rparr>)
                | None \<Rightarrow> Raise (AttributeError name))))"

datatype logger = Logger nat | DummyLogger

datatype limit = PyInt int | PyFloat rat

type_synonym callback = nat

record trainer =
  state_fn :: trainer_fn
  state_stage :: running_stage
  sanity_checking :: bool
  fast_dev_run :: bool
  is_distributed :: bool
  train_source_is_module :: bool
  source_dataloaders :: "dl_prefix \<Rightarrow> nat option"
  logger :: "logger option"
  callbacks :: "callback list"
  limit_batches :: "dl_prefix \<Rightarrow> limit"
  loops :: "loop_name \<Rightarrow> loop"
  progress_bar_callback :: "bool option"
  lightning_module :: lightning_module
  train_dataloader :: dataloader
  eval_dataloaders :: "dl_prefix \<Rightarrow> dataloader list"
  default_root_dir :: string
  checkpoints :: "string \<rightharpoonup> nat"
  accelerator_is_gpu :: bool
  cuda_gc_calls :: nat
  loop_runs :: nat

text \<open>
  \<^item> \<open>is_distributed\<close> is \<^verbatim>\<open>trainer._accelerator_connector.is_distributed\<close>,
    \<open>train_source_is_module\<close> is \<^verbatim>\<open>trainer._data_connector._train_dataloader_source.is_module()\<close>,
    and \<open>source_dataloaders p\<close> is \<open>Some n\<close> when the \<open>p\<close> source's \<^verbatim>\<open>dataloader()\<close>
    returns a list of \<open>n\<close> dataloaders and \<open>None\<close> when it returns anything else.
  \<^item> \<open>limit_batches p\<close> is the attribute \<^verbatim>\<open>limit_<p>_batches\<close>
    (\<^verbatim>\<open>Union[int, float]\<close>), \<open>eval_dataloaders p\<close> the attribute \<^verbatim>\<open><p>_dataloaders\<close>.
  \<^item> \<open>progress_bar_callback\<close> is \<open>Some enabled\<close> when the trainer has a progress bar.
  \<^item> \<open>checkpoints\<close> is the file system: a path holds the weights saved under it.
  \<^item> \<open>cuda_gc_calls\<close> counts the calls of \<^verbatim>\<open>garbage_collection_cuda()\<close> and \<open>loop_runs\<close>
    the calls of \<^verbatim>\<open>loop.run()\<close>; both are ghost counters, nothing reads them.
  \<^item> \<^verbatim>\<open>pl_module\<close>, which the hooks pass along, is \<^verbatim>\<open>trainer.lightning_module\<close>.
  Messages of \<^verbatim>\<open>rank_zero_warn\<close>, \<^verbatim>\<open>rank_zero_info\<close> and \<^verbatim>\<open>log.info\<close> are not modelled.
\<close>

section \<open>The finder\<close>

datatype mode = power | binsearch

record dumped_params =
  dumped_logger :: "logger option option"
  dumped_callbacks :: "callback list option"
  dumped_max_steps :: "int option"
  dumped_limit_val_batches :: "limit option"
  dumped_limit_eval_batches :: "limit option"
  dumped_loop_verbose :: "bool option"
  dumped_loop_state_dict :: "state_dict option"

text \<open>The dictionary \<^verbatim>\<open>self._dumped_params\<close>: a key that is absent is \<open>None\<close>, and
  reading it raises \<^verbatim>\<open>KeyError\<close>.\<close>

definition empty_dumped_params :: dumped_params where
  "empty_dumped_params =
     \<lparr>dumped_logger = None, dumped_callbacks = None, dumped_max_steps = None,
      dumped_limit_val_batches = None, dumped_limit_eval_batches = None,
      dumped_loop_verbose = None, dumped_loop_state_dict = None\<rparr>"

record BatchSizeFinder =
  mode :: mode
  steps_per_trial :: int
  init_val :: int
  max_trials :: int
  batch_arg_name :: string
  optimal_batch_size :: int
  early_exit :: bool
  dumped :: dumped_params

text \<open>\<^verbatim>\<open>__init__\<close> rejects every mode outside \<^verbatim>\<open>SUPPORTED_MODES\<close>, so a finder holds
  one of the two.\<close>

section \<open>External collaborators\<close>

record run_result =
  raised :: "trial_error option"
  run_progress :: state_dict
  run_restarting :: bool
  run_weights :: nat

record env =
  loop_run :: "loop_name \<Rightarrow> trainer \<Rightarrow> run_result"
  reset_train_dataloader :: "trainer \<Rightarrow> dataloader"
  reset_eval_dataloader :: "dl_prefix \<Rightarrow> trainer \<Rightarrow> dataloader list"
  uuid4 :: string

text \<open>
  \<open>loop_run env n t\<close> is \<^verbatim>\<open>loop.run()\<close> of the loop \<open>n\<close> on the trainer \<open>t\<close>: it may raise,
  and it leaves the loop's progress state, its restarting flag and the model weights as
  it pleases. The dataloader hooks rebuild the dataloaders from the trainer (so from
  the model's current batch size); \<open>uuid4\<close> is the name \<^verbatim>\<open>uuid.uuid4()\<close> draws.
\<close>

section \<open>The batch size adjuster\<close>

text \<open>\<^verbatim>\<open>int(x)\<close> truncates towards zero. A Python float is modelled by the rational it
  denotes, so \<^verbatim>\<open>batch_size * factor\<close> is the exact product (as it is for the factors
  \<^verbatim>\<open>1.0\<close> and \<^verbatim>\<open>2.0\<close> that the finder passes, with batch sizes below \<open>2^53\<close>).\<close>

definition py_int :: "rat \<Rightarrow> int" where
  "py_int x = (if 0 \<le> x then \<lfloor>x\<rfloor> else \<lceil>x\<rceil>)"

definition is_valid_batch_size :: "int \<Rightarrow> dataloader \<Rightarrow> bool" where
  "is_valid_batch_size batch_size dl =
     (\<not> has_len_all_ranks dl \<or> batch_size \<le> int (num_batches dl))"

text \<open>The dataloader \<^verbatim>\<open>_adjust_batch_size\<close> checks the new size against:
  \<^verbatim>\<open>trainer.train_dataloader\<close> in a fit, else the first of the stage's dataloaders
  (the trainer has \<^verbatim>\<open>val_dataloaders\<close>, \<^verbatim>\<open>test_dataloaders\<close> and
  \<^verbatim>\<open>predict_dataloaders\<close>).\<close>

definition stage_dataloaders :: "trainer \<Rightarrow> dataloader list outcome" where
  "stage_dataloaders t =
     (let p = dataloader_prefix (state_stage t) in
      if p = PVal \<or> p = PTest \<or> p = PPredict then Return (eval_dataloaders t p)
      else Raise (AttributeError (prefix_value p @ ''_dataloaders'')))"

definition relevant_dataloader :: "trainer \<Rightarrow> dataloader outcome" where
  "relevant_dataloader t =
     (if state_fn t = Fit then Return (train_dataloader t)
      else (case stage_dataloaders t of
              Raise e \<Rightarrow> Raise e
            | Return [] \<Rightarrow> Raise IndexError
            | Return (dl # _) \<Rightarrow> Return dl))"

definition clamp_to_dataset :: "int \<Rightarrow> dataloader \<Rightarrow> int" where
  "clamp_to_dataset new_size dl =
     (if \<not> is_valid_batch_size new_size dl then min new_size (int (dataset_len dl))
      else new_size)"

definition adjust_batch_size ::
  "BatchSizeFinder \<Rightarrow> trainer \<Rightarrow> rat \<Rightarrow> int option \<Rightarrow> (int \<times> bool) outcome \<times> trainer" where
  "adjust_batch_size self t factor val =
     (let model = lightning_module t in
      case lightning_getattr model (batch_arg_name self) of
        Raise e \<Rightarrow> (Raise e, t)
      | Return batch_size \<Rightarrow>
          (let new_size = (case val of Some v \<Rightarrow> v | None \<Rightarrow> py_int (of_int batch_size * factor)) in
           case relevant_dataloader t of
             Raise e \<Rightarrow> (Raise e, t)
           | Return dl \<Rightarrow>
               (let new_size = clamp_to_dataset new_size dl;
                    changed = (new_size \<noteq> batch_size)
                in
                case lightning_setattr model (batch_arg_name self) new_size of
                  Raise e \<Rightarrow> (Raise e, t)
                | Return model' \<Rightarrow> (Return (new_size, changed), t\<lparr>lightning_module := model'\<rparr>))))"

text \<open>The parameter \<^verbatim>\<open>desc\<close> of the source is used purely for logging and is left out.
  \<open>relevant_dataloader\<close> and \<open>clamp_to_dataset\<close> are the dataloader and the two lines
  \<^verbatim>\<open>if not self._is_valid_batch_size(new_size, dl, trainer): new_size = min(new_size,
  len(dl.dataset))\<close> that the two branches of the source (fit, and any other phase) share.\<close>

section \<open>Trials\<close>

definition collect_garbage :: "trainer \<Rightarrow> trainer" where
  "collect_garbage t =
     (if accelerator_is_gpu t then t\<lparr>cuda_gc_calls := cuda_gc_calls t + 1\<rparr> else t)"

text \<open>The loop the finder drives: the fit loop in a fit, else the stage's loop.\<close>

definition current_loop :: "trainer \<Rightarrow> loop_name outcome" where
  "current_loop t = (if state_fn t = Fit then Return fit_loop else stage_loop (state_stage t))"

definition set_loop :: "trainer \<Rightarrow> loop_name \<Rightarrow> loop \<Rightarrow> trainer" where
  "set_loop t n l = t\<lparr>loops := (loops t)(n := l)\<rparr>"

definition apply_run :: "trainer \<Rightarrow> loop_name \<Rightarrow> run_result \<Rightarrow> trainer" where
  "apply_run t n r =
     t\<lparr>loops := (loops t)(n := (loops t n)\<lparr>progress := run_progress r, restarting := run_restarting r\<rparr>),
       lightning_module := (lightning_module t)\<lparr>weights := run_weights r\<rparr>,
       loop_runs := loop_runs t + 1\<rparr>"

definition try_loop_run :: "env \<Rightarrow> BatchSizeFinder \<Rightarrow> trainer \<Rightarrow> unit outcome \<times> trainer" where
  "try_loop_run env self t =
     (case current_loop t of
        Raise e \<Rightarrow> (Raise e, t)
      | Return n \<Rightarrow>
          (case dumped_loop_state_dict (dumped self) of
             None \<Rightarrow> (Raise (KeyError ''loop_state_dict''), t)
           | Some sd \<Rightarrow>
               (let t1 = set_loop t n ((load_state_dict (loops t n) sd)\<lparr>restarting := False\<rparr>);
                    r = loop_run env n t1;
                    t2 = apply_run t1 n r
                in (case raised r of None \<Rightarrow> (Return (), t2) | Some e \<Rightarrow> (Raise (TrialError e), t2)))))"

text \<open>\<^verbatim>\<open>_reset_dataloaders\<close>: the trainer has \<^verbatim>\<open>reset_train_dataloader\<close>,
  \<^verbatim>\<open>reset_val_dataloader\<close>, \<^verbatim>\<open>reset_test_dataloader\<close> and \<^verbatim>\<open>reset_predict_dataloader\<close>.\<close>

definition reset_dataloaders :: "env \<Rightarrow> trainer \<Rightarrow> unit outcome \<times> trainer" where
  "reset_dataloaders env t =
     (if state_fn t = Fit then
        (let t1 = t\<lparr>train_dataloader := reset_train_dataloader env t\<rparr>;
             t2 = t1\<lparr>eval_dataloaders := (eval_dataloaders t1)(PVal := reset_eval_dataloader env PVal t1)\<rparr>
         in (Return (), t2))
      else
        (let p = dataloader_prefix (state_stage t) in
         if p = PTrain then (Return (), t\<lparr>train_dataloader := reset_train_dataloader env t\<rparr>)
         else (Return (), t\<lparr>eval_dataloaders := (eval_dataloaders t)(p := reset_eval_dataloader env p t)\<rparr>)))"

section \<open>Saving, overriding and restoring the trainer's settings\<close>

definition dump_params :: "BatchSizeFinder \<Rightarrow> trainer \<Rightarrow> unit outcome \<times> BatchSizeFinder" where
  "dump_params self t =
     (let d0 = empty_dumped_params\<lparr>dumped_logger := Some (logger t),
                                   dumped_callbacks := Some (callbacks t)\<rparr> in
      if state_fn t = Fit then
        (let loop = loops t fit_loop;
             d1 = d0\<lparr>dumped_max_steps := Some (max_steps (loops t fit_loop)),
                     dumped_limit_val_batches := Some (limit_batches t PVal)\<rparr>
         in (Return (), self\<lparr>dumped := d1\<lparr>dumped_loop_state_dict := Some (progress loop)\<rparr>\<rparr>))
      else
        (case stage_loop (state_stage t) of
           Raise e \<Rightarrow> (Raise e, self\<lparr>dumped := d0\<rparr>)
         | Return n \<Rightarrow>
             (let loop = loops t n;
                  d1 = d0\<lparr>dumped_limit_eval_batches :=
                            Some (limit_batches t (dataloader_prefix (state_stage t)))\<rparr>;
                  d2 = (case verbose loop of
                          Some v \<Rightarrow> d1\<lparr>dumped_loop_verbose := Some v\<rparr>
                        | None \<Rightarrow> d1)
              in (Return (), self\<lparr>dumped := d2\<lparr>dumped_loop_state_dict := Some (progress loop)\<rparr>\<rparr>))))"

definition reset_params :: "BatchSizeFinder \<Rightarrow> trainer \<Rightarrow> unit outcome \<times> trainer" where
  "reset_params self t =
     (let t1 = t\<lparr>logger := (if logger t \<noteq> None then Some DummyLogger else None)\<rparr>;
          t2 = t1\<lparr>callbacks := []\<rparr>
      in
      if state_fn t2 = Fit then
        (let t3 = t2\<lparr>limit_batches := (limit_batches t2)(PVal := PyInt (steps_per_trial self))\<rparr>;
             t4 = set_loop t3 fit_loop ((loops t3 fit_loop)\<lparr>max_steps := steps_per_trial self\<rparr>)
         in (Return (), t4))
      else
        (case stage_loop (state_stage t2) of
           Raise e \<Rightarrow> (Raise e, t2)
         | Return n \<Rightarrow>
             (let t3 = t2\<lparr>limit_batches := (limit_batches t2)
                             (dataloader_prefix (state_stage t2) := PyInt (steps_per_trial self))\<rparr>;
                  t4 = (case verbose (loops t3 n) of
                          Some _ \<Rightarrow> set_loop t3 n ((loops t3 n)\<lparr>verbose := Some False\<rparr>)
                        | None \<Rightarrow> t3)
              in (Return (), t4))))"

text \<open>\<^verbatim>\<open>_restore_params\<close> reads the dictionary key by key; each read of an absent key
  raises, after the assignments before it have been made.\<close>

definition restore_loop :: "BatchSizeFinder \<Rightarrow> trainer \<Rightarrow> loop_name \<Rightarrow> unit outcome \<times> trainer" where
  "restore_loop self t n =
     (case dumped_loop_state_dict (dumped self) of
        None \<Rightarrow> (Raise (KeyError ''loop_state_dict''), t)
      | Some sd \<Rightarrow>
          (let t1 = set_loop t n ((load_state_dict (loops t n) sd)\<lparr>restarting := False\<rparr>);
               t2 = (case dumped_loop_verbose (dumped self) of
                       Some v \<Rightarrow> set_loop t1 n ((loops t1 n)\<lparr>verbose := Some v\<rparr>)
                     | None \<Rightarrow> t1)
           in (Return (), t2)))"

definition restore_params :: "BatchSizeFinder \<Rightarrow> trainer \<Rightarrow> unit outcome \<times> trainer" where
  "restore_params self t =
     (case dumped_logger (dumped self) of
        None \<Rightarrow> (Raise (KeyError ''logger''), t)
      | Some lg \<Rightarrow>
          (let t1 = t\<lparr>logger := lg\<rparr> in
           case dumped_callbacks (dumped self) of
             None \<Rightarrow> (Raise (KeyError ''callbacks''), t1)
           | Some cbs \<Rightarrow>
               (let t2 = t1\<lparr>callbacks := cbs\<rparr> in
                if state_fn t2 = Fit then
                  (case dumped_max_steps (dumped self) of
                     None \<Rightarrow> (Raise (KeyError ''max_steps''), t2)
                   | Some ms \<Rightarrow>
                       (let t3 = set_loop t2 fit_loop ((loops t2 fit_loop)\<lparr>max_steps := ms\<rparr>) in
                        case dumped_limit_val_batches (dumped self) of
                          None \<Rightarrow> (Raise (KeyError ''limit_val_batches''), t3)
                        | Some lv \<Rightarrow>
                            restore_loop self (t3\<lparr>limit_batches := (limit_batches t3)(PVal := lv)\<rparr>) fit_loop))
                else
                  (case stage_loop (state_stage t2) of
                     Raise e \<Rightarrow> (Raise e, t2)
                   | Return n \<Rightarrow>
                       (case dumped_limit_eval_batches (dumped self) of
                          None \<Rightarrow> (Raise (KeyError ''limit_eval_batches''), t2)
                        | Some le \<Rightarrow>
                            restore_loop self
                              (t2\<lparr>limit_batches := (limit_batches t2)
                                     (dataloader_prefix (state_stage t2) := le)\<rparr>) n)))))"

section \<open>The two search strategies\<close>

text \<open>
  \<^verbatim>\<open>_run_power_scaling\<close>: \<^verbatim>\<open>for _ in range(self.max_trials)\<close> is a recursion on the
  number of iterations left. The \<^verbatim>\<open>try\<close> block catches \<^verbatim>\<open>RuntimeError\<close> only, and
  re-raises the ones that are not out-of-memory errors; in this model only the trial
  raises a \<^verbatim>\<open>RuntimeError\<close>.
\<close>

fun power_scaling_loop ::
  "env \<Rightarrow> BatchSizeFinder \<Rightarrow> nat \<Rightarrow> trainer \<Rightarrow> int \<Rightarrow> int outcome \<times> trainer" where
  "power_scaling_loop env self 0 t new_size = (Return new_size, t)"
| "power_scaling_loop env self (Suc k) t new_size =
     (let t1 = collect_garbage t in
      case try_loop_run env self t1 of
        (Return _, t2) \<Rightarrow>
          (case adjust_batch_size self t2 2 None of
             (Raise e, t3) \<Rightarrow> (Raise e, t3)
           | (Return (new_size', changed), t3) \<Rightarrow>
               if changed then
                 (case reset_dataloaders env t3 of
                    (Raise e, t4) \<Rightarrow> (Raise e, t4)
                  | (Return _, t4) \<Rightarrow> power_scaling_loop env self k t4 new_size')
               else (Return new_size', t3))
      | (Raise (TrialError (RuntimeError True)), t2) \<Rightarrow>
          (let t3 = collect_garbage t2 in
           case adjust_batch_size self t3 1 None of
             (Raise e, t4) \<Rightarrow> (Raise e, t4)
           | (Return (new_size', _), t4) \<Rightarrow> (Return new_size', t4))
      | (Raise e, t2) \<Rightarrow> (Raise e, t2))"

definition run_power_scaling ::
  "env \<Rightarrow> BatchSizeFinder \<Rightarrow> trainer \<Rightarrow> int \<Rightarrow> int outcome \<times> trainer" where
  "run_power_scaling env self t new_size =
     power_scaling_loop env self (nat (max_trials self)) t new_size"

text \<open>
  \<^verbatim>\<open>_run_binary_scaling\<close>: one pass through the body of \<^verbatim>\<open>while True\<close> either leaves the
  loop (\<open>Break\<close>, by \<^verbatim>\<open>break\<close> or by an exception) or goes round again with new values
  of \<^verbatim>\<open>new_size\<close>, \<^verbatim>\<open>low\<close>, \<^verbatim>\<open>high\<close> and \<^verbatim>\<open>count\<close>. \<^verbatim>\<open>if high:\<close> holds when \<^verbatim>\<open>high\<close>
  is neither \<^verbatim>\<open>None\<close> nor zero.
\<close>

datatype step =
    Break "int outcome" trainer
  | Continue trainer int int "int option" int

definition truthy :: "int option \<Rightarrow> bool" where
  "truthy h = (case h of None \<Rightarrow> False | Some v \<Rightarrow> v \<noteq> 0)"

definition binary_scaling_step ::
  "env \<Rightarrow> BatchSizeFinder \<Rightarrow> trainer \<Rightarrow> int \<Rightarrow> int \<Rightarrow> int option \<Rightarrow> int \<Rightarrow> step" where
  "binary_scaling_step env self t new_size low high count =
     (let t1 = collect_garbage t in
      case try_loop_run env self t1 of
        (Return _, t2) \<Rightarrow>
          (let count = count + 1 in
           if count > max_trials self then Break (Return new_size) t2
           else
             (let low = new_size in
              if truthy high \<and> the high - low \<le> 1 then Break (Return new_size) t2
              else
                (case (if truthy high
                       then adjust_batch_size self t2 1 (Some ((the high + low) div 2))
                       else adjust_batch_size self t2 2 None) of
                   (Raise e, t3) \<Rightarrow> Break (Raise e) t3
                 | (Return (new_size', changed), t3) \<Rightarrow>
                     if changed then
                       (case reset_dataloaders env t3 of
                          (Raise e, t4) \<Rightarrow> Break (Raise e) t4
                        | (Return _, t4) \<Rightarrow> Continue t4 new_size' low high count)
                     else Break (Return new_size') t3)))
      | (Raise (TrialError (RuntimeError True)), t2) \<Rightarrow>
          (let t3 = collect_garbage t2;
               high = new_size;
               midval = (high + low) div 2
           in
           case adjust_batch_size self t3 1 (Some midval) of
             (Raise e, t4) \<Rightarrow> Break (Raise e) t4
           | (Return (new_size', changed), t4) \<Rightarrow>
               (case (if changed then reset_dataloaders env t4 else (Return (), t4)) of
                  (Raise e, t5) \<Rightarrow> Break (Raise e) t5
                | (Return _, t5) \<Rightarrow>
                    if high - low \<le> 1 then Break (Return new_size') t5
                    else Continue t5 new_size' low (Some high) count))
      | (Raise e, t2) \<Rightarrow> Break (Raise e) t2)"

function binary_scaling_loop ::
  "env \<Rightarrow> BatchSizeFinder \<Rightarrow> trainer \<Rightarrow> int \<Rightarrow> int \<Rightarrow> int option \<Rightarrow> int \<Rightarrow> int outcome \<times> trainer" where
  "binary_scaling_loop env self t new_size low high count =
     (case binary_scaling_step env self t new_size low high count of
        Break r t' \<Rightarrow> (r, t')
      | Continue t' new_size' low' high' count' \<Rightarrow>
          binary_scaling_loop env self t' new_size' low' high' count')"
  by pat_completeness auto
termination
proof (relation "measures [\<lambda>(env, self, t, n, low, high, c). nat (max_trials self - c),
                           \<lambda>(env, self, t, n, low, high, c). nat (n - low)]", goal_cases)
  case 1
  show ?case by simp
next
  case (2 env self t n low high c t' n' low' high' c')
  have le: "m \<le> v"
    if "adjust_batch_size self s f (Some v) = (Return (m, ch), s')" for s f v m ch s'
    using that unfolding adjust_batch_size_def clamp_to_dataset_def
    by (auto simp: Let_def split: outcome.splits if_splits)
  have "(c' = c + 1 \<and> c' \<le> max_trials self) \<or> (c' = c \<and> low' = low \<and> n' < n \<and> 1 < n - low)"
  proof (cases "try_loop_run env self (collect_garbage t)")
    case (Pair r t2)
    show ?thesis
    proof (cases r)
      case (Return u)
      with Pair 2 show ?thesis
        unfolding binary_scaling_step_def
        by (auto simp: Let_def split: if_splits prod.splits outcome.splits)
    next
      case (Raise e)
      show ?thesis
      proof (cases "e = TrialError (RuntimeError True)")
        case True
        with Pair Raise 2 obtain ch t4 where
          adj: "adjust_batch_size self (collect_garbage t2) 1 (Some ((n + low) div 2)) = (Return (n', ch), t4)"
          and far: "\<not> n - low \<le> 1" and same: "c' = c" "low' = low"
          unfolding binary_scaling_step_def
          by (auto simp: Let_def split: if_splits prod.splits outcome.splits)
        from le [OF adj] have "n' \<le> (n + low) div 2" .
        with far same show ?thesis by linarith
      next
        case False
        with Pair Raise 2 show ?thesis
          unfolding binary_scaling_step_def
          by (auto simp: Let_def split: exn.splits trial_error.splits bool.splits)
      qed
    qed
  qed
  then show ?case by auto
qed

text \<open>The loop terminates: every pass that goes round again either counts one more
  successful trial, of which there are at most \<^verbatim>\<open>max_trials\<close>, or has seen a trial fail
  with \<^verbatim>\<open>high - low > 1\<close> and tries a strictly smaller size above the same \<^verbatim>\<open>low\<close>.\<close>

declare binary_scaling_loop.simps [simp del]

definition run_binary_scaling ::
  "env \<Rightarrow> BatchSizeFinder \<Rightarrow> trainer \<Rightarrow> int \<Rightarrow> int outcome \<times> trainer" where
  "run_binary_scaling env self t new_size = binary_scaling_loop env self t new_size 1 None 0"

section \<open>The facade\<close>

definition ckpt_path :: "env \<Rightarrow> trainer \<Rightarrow> string" where
  "ckpt_path env t = default_root_dir t @ ''/.scale_batch_size_'' @ uuid4 env @ ''.ckpt''"

definition save_checkpoint :: "trainer \<Rightarrow> string \<Rightarrow> trainer" where
  "save_checkpoint t path = t\<lparr>checkpoints := (checkpoints t)(path \<mapsto> weights (lightning_module t))\<rparr>"

definition checkpoint_restore :: "trainer \<Rightarrow> string \<Rightarrow> unit outcome \<times> trainer" where
  "checkpoint_restore t path =
     (case checkpoints t path of
        None \<Rightarrow> (Raise (FileNotFoundError path), t)
      | Some w \<Rightarrow> (Return (), t\<lparr>lightning_module := (lightning_module t)\<lparr>weights := w\<rparr>\<rparr>))"

definition remove_checkpoint :: "trainer \<Rightarrow> string \<Rightarrow> trainer" where
  "remove_checkpoint t path = t\<lparr>checkpoints := (checkpoints t)(path := None)\<rparr>"

definition progress_bar_set :: "bool \<Rightarrow> trainer \<Rightarrow> trainer" where
  "progress_bar_set enabled t =
     (case progress_bar_callback t of
        None \<Rightarrow> t
      | Some _ \<Rightarrow> t\<lparr>progress_bar_callback := Some enabled\<rparr>)"

text \<open>
  Modelled from the spec: \<^verbatim>\<open>trainer.save_checkpoint\<close>,
  \<^verbatim>\<open>trainer._checkpoint_connector.restore\<close> and \<^verbatim>\<open>trainer.strategy.remove_checkpoint\<close>
  (the checkpoint collaborator is not among the sources) persist the model and
  optimizer state under a path, reload it into the live model, and delete the file.
  \<open>progress_bar_set\<close> is \<^verbatim>\<open>if trainer.progress_bar_callback:
  trainer.progress_bar_callback.disable()\<close> and its \<^verbatim>\<open>enable()\<close> twin.
\<close>

definition scale_batch_size ::
  "env \<Rightarrow> BatchSizeFinder \<Rightarrow> trainer \<Rightarrow> unit outcome \<times> BatchSizeFinder \<times> trainer" where
  "scale_batch_size env self t =
     (if fast_dev_run t then (Return (), self, t)
      else
        (let path = ckpt_path env t;
             t1 = save_checkpoint t path
         in
         case dump_params self t1 of
           (Raise e, self1) \<Rightarrow> (Raise e, self1, t1)
         | (Return _, self1) \<Rightarrow>
         (case reset_params self1 t1 of
           (Raise e, t2) \<Rightarrow> (Raise e, self1, t2)
         | (Return _, t2) \<Rightarrow>
         (let t3 = progress_bar_set False t2 in
          case adjust_batch_size self1 t3 1 (Some (init_val self1)) of
            (Raise e, t4) \<Rightarrow> (Raise e, self1, t4)
          | (Return (new_size, _), t4) \<Rightarrow>
          (case (case mode self1 of
                   power \<Rightarrow> run_power_scaling env self1 t4 new_size
                 | binsearch \<Rightarrow> run_binary_scaling env self1 t4 new_size) of
             (Raise e, t5) \<Rightarrow> (Raise e, self1, t5)
           | (Return new_size, t5) \<Rightarrow>
           (let t6 = collect_garbage t5 in
            case restore_params self1 t6 of
              (Raise e, t7) \<Rightarrow> (Raise e, self1, t7)
            | (Return _, t7) \<Rightarrow>
            (let t8 = progress_bar_set True t7 in
             case checkpoint_restore t8 path of
               (Raise e, t9) \<Rightarrow> (Raise e, self1, t9)
             | (Return _, t9) \<Rightarrow>
             (let t10 = remove_checkpoint t9 path;
                  self2 = self1\<lparr>optimal_batch_size := new_size\<rparr>
              in
              if early_exit self2 then (Raise TunerExitException, self2, t10)
              else (Return (), self2, t10)))))))))"

text \<open>\<^verbatim>\<open>BatchSizeFinder.setup\<close> (\<open>setup\<close> is a keyword here) writes nothing; it returns
  the trainer it was given.\<close>

definition finder_setup ::
  "BatchSizeFinder \<Rightarrow> trainer \<Rightarrow> string option \<Rightarrow> unit outcome \<times> trainer" where
  "finder_setup self t stage =
     (if is_distributed t then
        (Raise (MisconfigurationException
           ''Batch size finder is not supported with distributed strategies.''), t)
      else
        (let running_stage = state_stage t;
             dl_source = source_dataloaders t (dataloader_prefix running_stage)
         in
         if \<not> train_source_is_module t then
           (Raise (MisconfigurationException
              ''Batch size finder cannot be used with dataloaders passed directly to .fit().''), t)
         else if stage \<noteq> Some ''fit'' \<and> (case dl_source of Some n \<Rightarrow> n > 1 | None \<Rightarrow> False) then
           (Raise (MisconfigurationException
              (''Batch size finder cannot be used with multiple '' @
               prefix_value (dataloader_prefix running_stage) @ '' dataloaders.'')), t)
         else if \<not> lightning_hasattr (lightning_module t) (batch_arg_name self) then
           (Raise (MisconfigurationException
              (''Field '' @ batch_arg_name self @ '' not found in both model and model.hparams'')), t)
         else (Return (), t)))"

section \<open>The lifecycle hooks\<close>

definition on_fit_start ::
  "env \<Rightarrow> BatchSizeFinder \<Rightarrow> trainer \<Rightarrow> unit outcome \<times> BatchSizeFinder \<times> trainer" where
  "on_fit_start env self t = scale_batch_size env self t"

definition on_validation_start ::
  "env \<Rightarrow> BatchSizeFinder \<Rightarrow> trainer \<Rightarrow> unit outcome \<times> BatchSizeFinder \<times> trainer" where
  "on_validation_start env self t =
     (if sanity_checking t \<or> state_fn t \<noteq> Validate then (Return (), self, t)
      else scale_batch_size env self t)"

definition on_test_start ::
  "env \<Rightarrow> BatchSizeFinder \<Rightarrow> trainer \<Rightarrow> unit outcome \<times> BatchSizeFinder \<times> trainer" where
  "on_test_start env self t = scale_batch_size env self t"

definition on_predict_start ::
  "env \<Rightarrow> BatchSizeFinder \<Rightarrow> trainer \<Rightarrow> unit outcome \<times> BatchSizeFinder \<times> trainer" where
  "on_predict_start env self t = scale_batch_size env self t"

section \<open>Simulated collaborators\<close>

text \<open>
  The scenarios of the specification run the finder against simulated collaborators: a
  trial that fails as a function of the model's current batch size (and, when it does
  not fail, advances the loop, marks it as resuming and changes the weights), and a
  standard dataloader over a dataset of \<open>L\<close> samples, of \<open>\<lceil>L / batch_size\<rceil>\<close> batches,
  or one of unknowable length.
\<close>

definition model_batch_size :: "string \<Rightarrow> trainer \<Rightarrow> int" where
  "model_batch_size name t =
     (case lightning_getattr (lightning_module t) name of Return b \<Rightarrow> b | Raise _ \<Rightarrow> 0)"

definition standard_dataloader :: "nat \<Rightarrow> int \<Rightarrow> dataloader" where
  "standard_dataloader L b =
     \<lparr>has_len_all_ranks = True, num_batches = (L + nat b - 1) div nat b, dataset_len = L\<rparr>"

definition unsized_dataloader :: dataloader where
  "unsized_dataloader = \<lparr>has_len_all_ranks = False, num_batches = 0, dataset_len = 0\<rparr>"

definition simulated_dataloader :: "nat option \<Rightarrow> int \<Rightarrow> dataloader" where
  "simulated_dataloader L b =
     (case L of None \<Rightarrow> unsized_dataloader | Some l \<Rightarrow> standard_dataloader l b)"

definition oom_above :: "int \<Rightarrow> int \<Rightarrow> trial_error option" where
  "oom_above T b = (if b > T then Some (RuntimeError True) else None)"

definition never_fails :: "int \<Rightarrow> trial_error option" where
  "never_fails b = None"


definition simulated_run ::
  "string \<Rightarrow> (int \<Rightarrow> trial_error option) \<Rightarrow> loop_name \<Rightarrow> trainer \<Rightarrow> run_result" where
  "simulated_run name failure n t =
     \<lparr>raised = failure (model_batch_size name t),
      run_progress = (''batches_seen'', 3) # progress (loops t n),
      run_restarting = True,
      run_weights = weights (lightning_module t) + 1\<rparr>"

definition simulated_env :: "string \<Rightarrow> (int \<Rightarrow> trial_error option) \<Rightarrow> nat option \<Rightarrow> env" where
  "simulated_env name failure L =
     \<lparr>loop_run = simulated_run name failure,
      reset_train_dataloader = (\<lambda>t. simulated_dataloader L (model_batch_size name t)),
      reset_eval_dataloader = (\<lambda>p t. [simulated_dataloader L (model_batch_size name t)]),
      uuid4 = ''0a1b''\<rparr>"

definition example_loop :: loop where
  "example_loop =
     \<lparr>progress = [(''epoch'', 0)], restarting = False, verbose = Some True, max_steps = - 1\<rparr>"

definition example_trainer :: "trainer_fn \<Rightarrow> running_stage \<Rightarrow> int \<Rightarrow> nat option \<Rightarrow> trainer" where
  "example_trainer f s b L =
     \<lparr>state_fn = f, state_stage = s, sanity_checking = False, fast_dev_run = False,
      is_distributed = False, train_source_is_module = True,
      source_dataloaders = (\<lambda>_. None),
      logger = Some (Logger 7), callbacks = [1, 2],
      limit_batches = (\<lambda>_. PyFloat 1),
      loops = (\<lambda>n. if n = predict_loop then example_loop\<lparr>verbose := None\<rparr> else example_loop),
      progress_bar_callback = Some True,
      lightning_module = \<lparr>attrs = [''batch_size'' \<mapsto> b], hparams = None, weights = 42\<rparr>,
      train_dataloader = simulated_dataloader L b,
      eval_dataloaders = (\<lambda>_. [simulated_dataloader L b]),
      default_root_dir = ''/tmp'',
      checkpoints = Map.empty,
      accelerator_is_gpu = True, cuda_gc_calls = 0, loop_runs = 0\<rparr>"

definition example_finder :: "mode \<Rightarrow> int \<Rightarrow> int \<Rightarrow> BatchSizeFinder" where
  "example_finder m i k =
     \<lparr>mode = m, steps_per_trial = 3, init_val = i, max_trials = k,
      batch_arg_name = ''batch_size'', optimal_batch_size = i, early_exit = False,
      dumped = empty_dumped_params\<rparr>"

section \<open>Predicates and functions of the statements\<close>

text \<open>
  The trials, the adjuster, the dataloader resets and the memory reclamation change the
  running loop's progress and restarting flag, the model, the dataloaders and the two
  ghost counters; the facade switches the progress bar. \<open>settings_kept t t'\<close> lists what
  they leave as it was.
\<close>

definition settings_kept :: "trainer \<Rightarrow> trainer \<Rightarrow> bool" where
  "settings_kept t t' =
     (state_fn t' = state_fn t \<and> state_stage t' = state_stage t \<and>
      logger t' = logger t \<and> callbacks t' = callbacks t \<and>
      limit_batches t' = limit_batches t \<and>
      checkpoints t' = checkpoints t \<and>
      (\<lambda>n. max_steps (loops t' n)) = (\<lambda>n. max_steps (loops t n)) \<and>
      (\<lambda>n. verbose (loops t' n)) = (\<lambda>n. verbose (loops t n)))"


text \<open>
  The hypotheses of the theorems on the two strategies. \<open>search_ready P self t n\<close>: the
  trainer is in a phase that has a loop, \<^verbatim>\<open>_dump_params\<close> has saved the loop's state,
  the phase has a dataloader, which satisfies \<open>P\<close>, and the model's batch size field
  holds \<open>n\<close>. \<open>dataloaders_satisfy P env\<close>: every dataloader a reset builds satisfies
  \<open>P\<close>. \<open>trials_fail_by env name failure\<close>: whether and how a trial fails is the
  function \<open>failure\<close> of the model's batch size.
\<close>

definition search_ready :: "(dataloader \<Rightarrow> bool) \<Rightarrow> BatchSizeFinder \<Rightarrow> trainer \<Rightarrow> int \<Rightarrow> bool" where
  "search_ready P self t n =
     ((\<exists>lp. current_loop t = Return lp) \<and>
      dumped_loop_state_dict (dumped self) \<noteq> None \<and>
      (\<exists>dl. relevant_dataloader t = Return dl \<and> P dl) \<and>
      lightning_getattr (lightning_module t) (batch_arg_name self) = Return n)"

definition dataloaders_satisfy :: "(dataloader \<Rightarrow> bool) \<Rightarrow> env \<Rightarrow> bool" where
  "dataloaders_satisfy P env =
     ((\<forall>t. P (reset_train_dataloader env t)) \<and>
      (\<forall>p t. case reset_eval_dataloader env p t of [] \<Rightarrow> False | dl # _ \<Rightarrow> P dl))"

definition trials_fail_by :: "env \<Rightarrow> string \<Rightarrow> (int \<Rightarrow> trial_error option) \<Rightarrow> bool" where
  "trials_fail_by env name failure =
     (\<forall>lp t b. lightning_getattr (lightning_module t) name = Return b \<longrightarrow>
                raised (loop_run env lp t) = failure b)"

text \<open>\<open>sized L dl\<close>: the length of \<open>dl\<close> is knowable, its dataset has \<open>L\<close> samples, and it
  has at most \<open>L\<close> batches (as any dataloader with a batch size of at least one has).\<close>

definition sized :: "nat \<Rightarrow> dataloader \<Rightarrow> bool" where
  "sized L dl = (has_len_all_ranks dl \<and> dataset_len dl = L \<and> num_batches dl \<le> L)"


text \<open>The specification's words for the result of the growth mode: the largest value among
  \<open>init\<close>, \<open>2 * init\<close>, \<open>4 * init\<close>, ... that is at most \<open>L\<close> (for \<open>1 \<le> init \<le> L\<close>).\<close>

fun doubled_while_below :: "nat \<Rightarrow> int \<Rightarrow> int \<Rightarrow> int" where
  "doubled_while_below 0 v L = v"
| "doubled_while_below (Suc k) v L = (if 2 * v \<le> L then doubled_while_below k (2 * v) L else v)"

definition largest_power_of_two_scaled :: "int \<Rightarrow> int \<Rightarrow> int" where
  "largest_power_of_two_scaled init L = doubled_while_below (nat L) init L"

section \<open>The adjuster\<close>

lemma lightning_getattr_setattr:
  "lightning_setattr m name v = Return m' \<Longrightarrow> lightning_getattr m' name = Return v"
  by (auto simp: lightning_setattr_def lightning_getattr_def split: option.splits)

lemma lightning_setattr_getattr:
  "lightning_getattr m name = Return b \<Longrightarrow> \<exists>m'. lightning_setattr m name v = Return m'"
  by (auto simp: lightning_setattr_def lightning_getattr_def split: option.splits)

lemma py_int_floor: "factor = 1 \<or> factor = 2 \<or> 0 \<le> of_int b * factor \<Longrightarrow>
    py_int (of_int b * factor) = \<lfloor>of_int b * factor\<rfloor>"
proof -
  assume h: "factor = 1 \<or> factor = 2 \<or> 0 \<le> of_int b * factor"
  have two: "\<lceil>(of_int b :: rat) * 2\<rceil> = \<lfloor>(of_int b :: rat) * 2\<rfloor>"
  proof -
    have "(of_int b :: rat) * 2 = of_int (b * 2)" by simp
    then show ?thesis by (simp only: floor_of_int ceiling_of_int)
  qed
  from h two show ?thesis by (auto simp: py_int_def)
qed


lemma clamp_to_dataset_eq:
  "clamp_to_dataset n dl =
     (if has_len_all_ranks dl \<and> int (num_batches dl) < n then min n (int (dataset_len dl)) else n)"
  by (auto simp: clamp_to_dataset_def is_valid_batch_size_def)

lemma adjust_batch_size_computes:
  assumes "lightning_getattr (lightning_module t) (batch_arg_name self) = Return b"
    and "relevant_dataloader t = Return dl"
  shows "\<exists>m'. adjust_batch_size self t f val =
           (Return (clamp_to_dataset (case val of Some v \<Rightarrow> v | None \<Rightarrow> py_int (of_int b * f)) dl,
                    clamp_to_dataset (case val of Some v \<Rightarrow> v | None \<Rightarrow> py_int (of_int b * f)) dl \<noteq> b),
            t\<lparr>lightning_module := m'\<rparr>) \<and>
          lightning_getattr m' (batch_arg_name self) =
            Return (clamp_to_dataset (case val of Some v \<Rightarrow> v | None \<Rightarrow> py_int (of_int b * f)) dl) \<and>
          weights m' = weights (lightning_module t)"
proof -
  let ?n = "clamp_to_dataset (case val of Some v \<Rightarrow> v | None \<Rightarrow> py_int (of_int b * f)) dl"
  obtain m' where m': "lightning_setattr (lightning_module t) (batch_arg_name self) ?n = Return m'"
    using lightning_setattr_getattr [OF assms(1)] by blast
  have "adjust_batch_size self t f val = (Return (?n, ?n \<noteq> b), t\<lparr>lightning_module := m'\<rparr>)"
    by (simp add: adjust_batch_size_def assms m' Let_def)
  moreover have "weights m' = weights (lightning_module t)"
    using m' by (auto simp: lightning_setattr_def split: option.splits)
  ultimately show ?thesis
    using lightning_getattr_setattr [OF m'] by blast
qed



lemma adjust_batch_size_Return:
  assumes "adjust_batch_size self t f val = (Return (n, c), t')"
  shows "\<exists>b dl m'. lightning_getattr (lightning_module t) (batch_arg_name self) = Return b \<and>
           relevant_dataloader t = Return dl \<and>
           n = clamp_to_dataset (case val of Some v \<Rightarrow> v | None \<Rightarrow> py_int (of_int b * f)) dl \<and>
           c = (n \<noteq> b) \<and>
           lightning_setattr (lightning_module t) (batch_arg_name self) n = Return m' \<and>
           t' = t\<lparr>lightning_module := m'\<rparr>"
  using assms unfolding adjust_batch_size_def
  by (auto simp: Let_def split: outcome.splits)

lemma relevant_dataloader_module [simp]:
  "relevant_dataloader (t\<lparr>lightning_module := m\<rparr>) = relevant_dataloader t"
  by (simp add: relevant_dataloader_def stage_dataloaders_def Let_def)

text \<open>
  C9. Idempotence: when a call of the adjuster with the explicit value \<open>v\<close> returns, a
  second call with the same value on the state the first one left (the dataloaders as
  they were) returns the same size and \<open>changed = False\<close>.
\<close>

theorem adjust_batch_size_idempotent:
  assumes "adjust_batch_size self t f1 (Some v) = (Return (n, c), t1)"
  shows "\<exists>t2. adjust_batch_size self t1 f2 (Some v) = (Return (n, False), t2)"
proof -
  from adjust_batch_size_Return [OF assms] obtain b dl m' where
    dl: "relevant_dataloader t = Return dl" and n: "n = clamp_to_dataset v dl"
    and set: "lightning_setattr (lightning_module t) (batch_arg_name self) n = Return m'"
    and t1: "t1 = t\<lparr>lightning_module := m'\<rparr>"
    by auto
  have get: "lightning_getattr (lightning_module t1) (batch_arg_name self) = Return n"
    using lightning_getattr_setattr [OF set] by (simp add: t1)
  obtain m'' where set2: "lightning_setattr (lightning_module t1) (batch_arg_name self) n = Return m''"
    using lightning_setattr_getattr [OF get] by blast
  have dl1: "relevant_dataloader t1 = Return dl"
    by (simp add: t1 dl)
  have "adjust_batch_size self t1 f2 (Some v) = (Return (n, False), t1\<lparr>lightning_module := m''\<rparr>)"
    by (simp add: adjust_batch_size_def get dl1 n [symmetric] set2)
  then show ?thesis by blast
qed

theorem adjust_batch_size_idempotent_witness:
  "\<exists>t1. adjust_batch_size (example_finder power 2 25)
           (example_trainer Validate VALIDATING 2 (Some 1000)) 1 (Some 1500) = (Return (1000, True), t1) \<and>
        (\<exists>t2. adjust_batch_size (example_finder power 2 25) t1 1 (Some 1500) = (Return (1000, False), t2))"
proof -
  let ?T = "example_trainer Validate VALIDATING 2 (Some 1000)"
  let ?F = "example_finder power 2 25"
  have n: "batch_arg_name ?F = ''batch_size''"
    by (simp add: example_finder_def)
  have a: "lightning_getattr (lightning_module ?T) (batch_arg_name ?F) = Return 2"
    by (simp add: n example_trainer_def lightning_getattr_def)
  have b: "relevant_dataloader ?T = Return (standard_dataloader 1000 2)"
    by (simp add: relevant_dataloader_def stage_dataloaders_def example_trainer_def
        simulated_dataloader_def)
  from adjust_batch_size_computes [OF a b, of 1 "Some 1500"] obtain t1 where
    first: "adjust_batch_size ?F ?T 1 (Some 1500) = (Return (1000, True), t1)"
    by (auto simp: clamp_to_dataset_eq standard_dataloader_def)
  from adjust_batch_size_idempotent [OF first, of 1] first show ?thesis
    by blast
qed

section \<open>The hooks of the callback\<close>

text \<open>
  C10. \<^verbatim>\<open>on_validation_start\<close> returns at once, with the finder and the trainer as they
  were (no trial, no checkpoint, no setting touched), whenever the trainer is sanity
  checking or its current function is not \<^verbatim>\<open>"validate"\<close>, as in the validation run
  inside a fit.
\<close>

theorem on_validation_start_skips:
  assumes "sanity_checking t \<or> state_fn t \<noteq> Validate"
  shows "on_validation_start env self t = (Return (), self, t)"
  using assms by (auto simp: on_validation_start_def)

theorem on_validation_start_skips_witness:
  "state_fn (example_trainer Fit VALIDATING 2 None) \<noteq> Validate \<and>
   on_validation_start (simulated_env ''batch_size'' never_fails None) (example_finder power 2 25)
       (example_trainer Fit VALIDATING 2 None)
     = (Return (), example_finder power 2 25, example_trainer Fit VALIDATING 2 None)"
proof -
  have a: "state_fn (example_trainer Fit VALIDATING 2 None) \<noteq> Validate"
    by (simp add: example_trainer_def)
  then have "sanity_checking (example_trainer Fit VALIDATING 2 None) \<or>
             state_fn (example_trainer Fit VALIDATING 2 None) \<noteq> Validate" ..
  from on_validation_start_skips [OF this] a show ?thesis by simp
qed

text \<open>
  C8. When the configured field is neither an attribute of the model nor an entry of its
  hyperparameters namespace, \<^verbatim>\<open>setup\<close> raises a \<^verbatim>\<open>MisconfigurationException\<close> and
  leaves the trainer as it was: no trial has run and no checkpoint has been written.
  \<^verbatim>\<open>setup\<close> has no loop and catches nothing, so the error is raised once and propagates.
\<close>

theorem setup_missing_field:
  assumes "attrs (lightning_module t) (batch_arg_name self) = None"
    and "case hparams (lightning_module t) of None \<Rightarrow> True | Some h \<Rightarrow> h (batch_arg_name self) = None"
  shows "\<exists>msg. finder_setup self t stage = (Raise (MisconfigurationException msg), t)"
proof -
  from assms have "\<not> lightning_hasattr (lightning_module t) (batch_arg_name self)"
    by (auto simp: lightning_hasattr_def split: option.splits)
  then show ?thesis
    by (auto simp: finder_setup_def Let_def)
qed

theorem setup_missing_field_witness:
  "attrs (lightning_module (example_trainer Fit TRAINING 2 None)) ''bs'' = None \<and>
   hparams (lightning_module (example_trainer Fit TRAINING 2 None)) = None \<and>
   (\<exists>msg. finder_setup ((example_finder power 2 25)\<lparr>batch_arg_name := ''bs''\<rparr>)
             (example_trainer Fit TRAINING 2 None) (Some ''fit'')
           = (Raise (MisconfigurationException msg), example_trainer Fit TRAINING 2 None))"
proof -
  let ?T = "example_trainer Fit TRAINING 2 None"
  let ?F = "(example_finder power 2 25)\<lparr>batch_arg_name := ''bs''\<rparr>"
  have a: "attrs (lightning_module ?T) (batch_arg_name ?F) = None"
    by (simp add: example_trainer_def)
  have b: "hparams (lightning_module ?T) = None"
    by (simp add: example_trainer_def)
  then have c: "case hparams (lightning_module ?T) of None \<Rightarrow> True
                | Some h \<Rightarrow> h (batch_arg_name ?F) = None"
    by simp
  from setup_missing_field [OF a c, of "Some ''fit''"] a b show ?thesis
    by simp
qed

section \<open>What the search leaves alone\<close>

lemma settings_kept_refl [simp]: "settings_kept t t"
  by (simp add: settings_kept_def)

lemma settings_kept_trans: "settings_kept t t' \<Longrightarrow> settings_kept t' t'' \<Longrightarrow> settings_kept t t''"
  by (simp add: settings_kept_def)

lemma settings_kept_collect_garbage [simp]: "settings_kept t (collect_garbage t)"
  by (simp add: settings_kept_def collect_garbage_def)

lemma settings_kept_collect_garbage_right:
  "settings_kept t t' \<Longrightarrow> settings_kept t (collect_garbage t')"
  by (simp add: settings_kept_def collect_garbage_def)

lemma settings_kept_progress_bar_set [simp]: "settings_kept t (progress_bar_set b t)"
  by (simp add: settings_kept_def progress_bar_set_def split: option.splits)

lemma settings_kept_try_loop_run:
  "try_loop_run env self t = (r, t') \<Longrightarrow> settings_kept t t'"
  unfolding try_loop_run_def
  by (auto simp: Let_def settings_kept_def set_loop_def apply_run_def load_state_dict_def fun_eq_iff
      split: outcome.splits option.splits)

lemma settings_kept_adjust_batch_size:
  "adjust_batch_size self t f val = (r, t') \<Longrightarrow> settings_kept t t'"
  unfolding adjust_batch_size_def
  by (auto simp: Let_def settings_kept_def split: outcome.splits)

lemma settings_kept_reset_dataloaders:
  "reset_dataloaders env t = (r, t') \<Longrightarrow> settings_kept t t'"
  unfolding reset_dataloaders_def
  by (auto simp: Let_def settings_kept_def split: if_splits)

lemma collect_garbage_fields [simp]:
  "state_fn (collect_garbage t) = state_fn t"
  "state_stage (collect_garbage t) = state_stage t"
  "logger (collect_garbage t) = logger t"
  "callbacks (collect_garbage t) = callbacks t"
  "limit_batches (collect_garbage t) = limit_batches t"
  "checkpoints (collect_garbage t) = checkpoints t"
  "loops (collect_garbage t) = loops t"
  "lightning_module (collect_garbage t) = lightning_module t"
  "train_dataloader (collect_garbage t) = train_dataloader t"
  "eval_dataloaders (collect_garbage t) = eval_dataloaders t"
  by (simp_all add: collect_garbage_def)

lemma settings_kept_power_scaling_loop:
  "power_scaling_loop env self k t n = (r, t') \<Longrightarrow> settings_kept t t'"
proof (induction k arbitrary: t n)
  case 0
  then show ?case by simp
next
  case (Suc k)
  from Suc.prems show ?case
    by (auto simp: Let_def settings_kept_def
        split: prod.splits outcome.splits if_splits exn.splits trial_error.splits bool.splits
        dest!: settings_kept_try_loop_run settings_kept_adjust_batch_size
          settings_kept_reset_dataloaders Suc.IH)
qed

lemma settings_kept_binary_scaling_step:
  "binary_scaling_step env self t n low high c = Break r t' \<Longrightarrow> settings_kept t t'"
  "binary_scaling_step env self t n low high c = Continue t'' n' low' high' c' \<Longrightarrow> settings_kept t t''"
  unfolding binary_scaling_step_def
  by (auto simp: Let_def settings_kept_def
      split: prod.splits outcome.splits if_splits exn.splits trial_error.splits bool.splits
      dest!: settings_kept_try_loop_run settings_kept_adjust_batch_size
        settings_kept_reset_dataloaders)

lemma settings_kept_binary_scaling_loop:
  "binary_scaling_loop env self t n low high c = (r, t') \<Longrightarrow> settings_kept t t'"
proof (induction env self t n low high c rule: binary_scaling_loop.induct)
  case (1 env self t n low high c)
  show ?case
  proof (cases "binary_scaling_step env self t n low high c")
    case (Break r0 t0)
    with "1.prems" settings_kept_binary_scaling_step(1) [OF Break] show ?thesis
      by (simp add: binary_scaling_loop.simps [of env self t])
  next
    case (Continue t0 n0 low0 high0 c0)
    with "1.prems" have "binary_scaling_loop env self t0 n0 low0 high0 c0 = (r, t')"
      by (simp add: binary_scaling_loop.simps [of env self t])
    from "1.IH" [OF Continue this] settings_kept_binary_scaling_step(2) [OF Continue]
    show ?thesis by (rule settings_kept_trans [rotated])
  qed
qed

section \<open>Saving and restoring\<close>

lemma dump_params_self:
  "dump_params self t = (r, self1) \<Longrightarrow>
     mode self1 = mode self \<and> steps_per_trial self1 = steps_per_trial self \<and>
     init_val self1 = init_val self \<and> max_trials self1 = max_trials self \<and>
     batch_arg_name self1 = batch_arg_name self \<and>
     optimal_batch_size self1 = optimal_batch_size self \<and> early_exit self1 = early_exit self"
  unfolding dump_params_def
  by (auto simp: Let_def split: if_splits outcome.splits option.splits)



lemma restore_after_search:
  assumes dump: "dump_params self t1 = (Return (), self1)"
    and reset: "reset_params self1 t1 = (Return (), t2)"
    and kept: "settings_kept t2 t6"
    and restore: "restore_params self1 t6 = (r, t7)"
  shows "r = Return () \<and> logger t7 = logger t1 \<and> callbacks t7 = callbacks t1 \<and>
         limit_batches t7 = limit_batches t1 \<and>
         (\<forall>n. max_steps (loops t7 n) = max_steps (loops t1 n)) \<and>
         (\<forall>n. verbose (loops t7 n) = verbose (loops t1 n)) \<and>
         (\<exists>lp. current_loop t1 = Return lp \<and> progress (loops t7 lp) = progress (loops t1 lp) \<and>
               \<not> restarting (loops t7 lp)) \<and>
         checkpoints t7 = checkpoints t6 \<and> lightning_module t7 = lightning_module t6"
proof (cases "state_fn t1 = Fit")
  case True
  with dump have d: "dumped self1 =
      empty_dumped_params\<lparr>dumped_logger := Some (logger t1), dumped_callbacks := Some (callbacks t1),
        dumped_max_steps := Some (max_steps (loops t1 fit_loop)),
        dumped_limit_val_batches := Some (limit_batches t1 PVal),
        dumped_loop_state_dict := Some (progress (loops t1 fit_loop))\<rparr>"
    by (auto simp: dump_params_def Let_def)
  from True reset have t2: "t2 = set_loop (t1\<lparr>logger := (if logger t1 \<noteq> None then Some DummyLogger else None),
      callbacks := [], limit_batches := (limit_batches t1)(PVal := PyInt (steps_per_trial self1))\<rparr>)
      fit_loop ((loops t1 fit_loop)\<lparr>max_steps := steps_per_trial self1\<rparr>)"
    by (auto simp: reset_params_def Let_def)
  from kept have k: "state_fn t6 = Fit" "limit_batches t6 = (limit_batches t1)(PVal := PyInt (steps_per_trial self1))"
    "\<And>n. verbose (loops t6 n) = verbose (loops t1 n)"
    "\<And>n. n \<noteq> fit_loop \<Longrightarrow> max_steps (loops t6 n) = max_steps (loops t1 n)"
    by (auto simp: settings_kept_def t2 True set_loop_def fun_eq_iff)
  from restore show ?thesis
    by (auto simp: restore_params_def restore_loop_def d k Let_def set_loop_def load_state_dict_def
        empty_dumped_params_def current_loop_def True)
next
  case False
  with dump reset obtain lp where lp: "stage_loop (state_stage t1) = Return lp"
    by (auto simp: dump_params_def Let_def split: outcome.splits)
  let ?p = "dataloader_prefix (state_stage t1)"
  from False lp dump have d: "dumped_logger (dumped self1) = Some (logger t1)"
    "dumped_callbacks (dumped self1) = Some (callbacks t1)"
    "dumped_limit_eval_batches (dumped self1) = Some (limit_batches t1 ?p)"
    "dumped_loop_verbose (dumped self1) = verbose (loops t1 lp)"
    "dumped_loop_state_dict (dumped self1) = Some (progress (loops t1 lp))"
    by (auto simp: dump_params_def Let_def empty_dumped_params_def split: option.splits)
  from False lp reset have t2: "state_fn t2 = state_fn t1" "state_stage t2 = state_stage t1"
    "limit_batches t2 = (limit_batches t1)(?p := PyInt (steps_per_trial self1))"
    "\<And>n. max_steps (loops t2 n) = max_steps (loops t1 n)"
    "\<And>n. n \<noteq> lp \<Longrightarrow> verbose (loops t2 n) = verbose (loops t1 n)"
    "verbose (loops t1 lp) = None \<Longrightarrow> verbose (loops t2 lp) = None"
    by (auto simp: reset_params_def Let_def set_loop_def split: option.splits)
  from kept have k: "state_fn t6 = state_fn t1" "state_stage t6 = state_stage t1"
    "limit_batches t6 = (limit_batches t1)(?p := PyInt (steps_per_trial self1))"
    "\<And>n. max_steps (loops t6 n) = max_steps (loops t1 n)"
    "\<And>n. n \<noteq> lp \<Longrightarrow> verbose (loops t6 n) = verbose (loops t1 n)"
    "verbose (loops t1 lp) = None \<Longrightarrow> verbose (loops t6 lp) = None"
    by (auto simp: settings_kept_def t2 fun_eq_iff)
  from restore show ?thesis
    by (auto simp: restore_params_def restore_loop_def d k lp False Let_def set_loop_def
        load_state_dict_def current_loop_def split: option.splits)
qed

section \<open>The course of a search\<close>





lemma settings_kept_search:
  assumes "(case mode self of power \<Rightarrow> run_power_scaling env self t n
                            | binsearch \<Rightarrow> run_binary_scaling env self t n) = (r, t')"
  shows "settings_kept t t'"
proof (cases "mode self")
  case power
  with assms show ?thesis
    by (simp add: run_power_scaling_def settings_kept_power_scaling_loop)
next
  case binsearch
  with assms show ?thesis
    by (simp add: run_binary_scaling_def settings_kept_binary_scaling_loop)
qed

lemma settings_kept_until_restore:
  assumes "adjust_batch_size self (progress_bar_set False t2) f val = (r0, t4)"
    and "(case mode self of power \<Rightarrow> run_power_scaling env self t4 n
                          | binsearch \<Rightarrow> run_binary_scaling env self t4 n) = (r, t5)"
  shows "settings_kept t2 t5" and "settings_kept t2 (collect_garbage t5)"
proof -
  have a: "settings_kept t2 (progress_bar_set False t2)" by simp
  have b: "settings_kept (progress_bar_set False t2) t4"
    using assms(1) by (rule settings_kept_adjust_batch_size)
  have c: "settings_kept t4 t5"
    using assms(2) by (rule settings_kept_search)
  from a b c show "settings_kept t2 t5"
    by (blast intro: settings_kept_trans)
  then show "settings_kept t2 (collect_garbage t5)"
    by (rule settings_kept_collect_garbage_right)
qed









lemma save_checkpoint_fields [simp]:
  "state_fn (save_checkpoint t p) = state_fn t"
  "state_stage (save_checkpoint t p) = state_stage t"
  "logger (save_checkpoint t p) = logger t"
  "callbacks (save_checkpoint t p) = callbacks t"
  "limit_batches (save_checkpoint t p) = limit_batches t"
  "loops (save_checkpoint t p) = loops t"
  "lightning_module (save_checkpoint t p) = lightning_module t"
  "checkpoints (save_checkpoint t p) = (checkpoints t)(p \<mapsto> weights (lightning_module t))"
  by (simp_all add: save_checkpoint_def)

lemma current_loop_save_checkpoint [simp]:
  "current_loop (save_checkpoint t p) = current_loop t"
  by (simp add: current_loop_def)

lemma reset_params_checkpoints:
  "reset_params self t = (r, t') \<Longrightarrow> checkpoints t' = checkpoints t"
  unfolding reset_params_def
  by (auto simp: Let_def set_loop_def split: if_splits outcome.splits option.splits)








section \<open>A search that a trial aborts\<close>





section \<open>A search on a well-configured trainer\<close>

lemma relevant_dataloader_same:
  "state_fn t' = state_fn t \<Longrightarrow> state_stage t' = state_stage t \<Longrightarrow>
   train_dataloader t' = train_dataloader t \<Longrightarrow> eval_dataloaders t' = eval_dataloaders t \<Longrightarrow>
   relevant_dataloader t' = relevant_dataloader t"
  by (simp add: relevant_dataloader_def stage_dataloaders_def Let_def)

lemma current_loop_same:
  "state_fn t' = state_fn t \<Longrightarrow> state_stage t' = state_stage t \<Longrightarrow>
   current_loop t' = current_loop t"
  by (simp add: current_loop_def)

lemma search_ready_collect_garbage [simp]:
  "search_ready P self (collect_garbage t) n = search_ready P self t n"
  by (simp add: search_ready_def current_loop_def relevant_dataloader_def stage_dataloaders_def
      Let_def)

lemma lightning_getattr_weights [simp]:
  "lightning_getattr (m\<lparr>weights := w\<rparr>) name = lightning_getattr m name"
  by (simp add: lightning_getattr_def split: option.splits)

lemma try_loop_run_ready:
  assumes "search_ready P self t n" and "trials_fail_by env (batch_arg_name self) failure"
  shows "\<exists>t2. try_loop_run env self t =
           ((case failure n of None \<Rightarrow> Return () | Some e \<Rightarrow> Raise (TrialError e)), t2) \<and>
         search_ready P self t2 n"
proof -
  from assms(1) obtain lp sd where lp: "current_loop t = Return lp"
    and sd: "dumped_loop_state_dict (dumped self) = Some sd"
    and get: "lightning_getattr (lightning_module t) (batch_arg_name self) = Return n"
    by (auto simp: search_ready_def)
  let ?t1 = "set_loop t lp ((load_state_dict (loops t lp) sd)\<lparr>restarting := False\<rparr>)"
  let ?t2 = "apply_run ?t1 lp (loop_run env lp ?t1)"
  have "lightning_getattr (lightning_module ?t1) (batch_arg_name self) = Return n"
    using get by (simp add: set_loop_def)
  with assms(2) have r: "raised (loop_run env lp ?t1) = failure n"
    by (simp add: trials_fail_by_def)
  have run: "try_loop_run env self t =
      ((case failure n of None \<Rightarrow> Return () | Some e \<Rightarrow> Raise (TrialError e)), ?t2)"
    by (simp add: try_loop_run_def lp sd Let_def r split: option.splits)
  have "relevant_dataloader ?t2 = relevant_dataloader t"
    by (rule relevant_dataloader_same) (simp_all add: apply_run_def set_loop_def)
  moreover have "current_loop ?t2 = current_loop t"
    by (rule current_loop_same) (simp_all add: apply_run_def set_loop_def)
  moreover have "lightning_getattr (lightning_module ?t2) (batch_arg_name self) = Return n"
    using get by (simp add: apply_run_def set_loop_def)
  ultimately have "search_ready P self ?t2 n"
    using assms(1) by (simp add: search_ready_def)
  with run show ?thesis by blast
qed

lemma adjust_batch_size_ready:
  assumes "search_ready P self t n"
  shows "\<exists>dl t'. relevant_dataloader t = Return dl \<and> P dl \<and>
           adjust_batch_size self t f val =
             (Return (clamp_to_dataset (case val of Some v \<Rightarrow> v | None \<Rightarrow> py_int (of_int n * f)) dl,
                      clamp_to_dataset (case val of Some v \<Rightarrow> v | None \<Rightarrow> py_int (of_int n * f)) dl \<noteq> n),
              t') \<and>
           search_ready P self t'
             (clamp_to_dataset (case val of Some v \<Rightarrow> v | None \<Rightarrow> py_int (of_int n * f)) dl)"
proof -
  from assms obtain dl where dl: "relevant_dataloader t = Return dl" "P dl"
    and get: "lightning_getattr (lightning_module t) (batch_arg_name self) = Return n"
    by (auto simp: search_ready_def)
  from adjust_batch_size_computes [OF get dl(1), of f val] obtain m' where
    adj: "adjust_batch_size self t f val =
           (Return (clamp_to_dataset (case val of Some v \<Rightarrow> v | None \<Rightarrow> py_int (of_int n * f)) dl,
                    clamp_to_dataset (case val of Some v \<Rightarrow> v | None \<Rightarrow> py_int (of_int n * f)) dl \<noteq> n),
            t\<lparr>lightning_module := m'\<rparr>)"
    and get': "lightning_getattr m' (batch_arg_name self) =
            Return (clamp_to_dataset (case val of Some v \<Rightarrow> v | None \<Rightarrow> py_int (of_int n * f)) dl)"
    by blast
  have "search_ready P self (t\<lparr>lightning_module := m'\<rparr>)
          (clamp_to_dataset (case val of Some v \<Rightarrow> v | None \<Rightarrow> py_int (of_int n * f)) dl)"
    using assms get' current_loop_same [of "t\<lparr>lightning_module := m'\<rparr>" t]
    by (simp add: search_ready_def)
  with adj dl show ?thesis by blast
qed

lemma reset_dataloaders_ready:
  assumes "search_ready P self t n" and "dataloaders_satisfy P env"
  shows "\<exists>t'. reset_dataloaders env t = (Return (), t') \<and> search_ready P self t' n"
proof (cases "state_fn t = Fit")
  case True
  with assms show ?thesis
    by (auto simp: reset_dataloaders_def Let_def search_ready_def current_loop_def
        relevant_dataloader_def dataloaders_satisfy_def)
next
  case False
  with assms(1) obtain lp where "stage_loop (state_stage t) = Return lp"
    by (auto simp: search_ready_def current_loop_def)
  then have st: "state_stage t \<noteq> TRAINING"
    by auto
  from assms(2) have "case reset_eval_dataloader env (dataloader_prefix (state_stage t)) t of
                        [] \<Rightarrow> False | dl # _ \<Rightarrow> P dl"
    by (simp add: dataloaders_satisfy_def)
  then obtain dl dls where
    "reset_eval_dataloader env (dataloader_prefix (state_stage t)) t = dl # dls" "P dl"
    by (cases "reset_eval_dataloader env (dataloader_prefix (state_stage t)) t") auto
  with False st assms(1) show ?thesis
    by (cases "state_stage t")
       (auto simp: reset_dataloaders_def Let_def search_ready_def current_loop_def
         relevant_dataloader_def stage_dataloaders_def)
qed

section \<open>The growth strategy when memory runs out\<close>

text \<open>Whatever the number of iterations left, an out-of-memory error at the size \<open>n\<close> ends
  the growth strategy with the adjuster's answer to the factor \<open>1\<close>: \<open>n\<close> itself, unless
  the dataset is smaller.\<close>

lemma py_int_same: "py_int (of_int n) = n"
  by (simp add: py_int_def)

lemma power_scaling_loop_oom:
  assumes "search_ready P self t n"
    and "trials_fail_by env (batch_arg_name self) failure"
    and "failure n = Some (RuntimeError True)"
  shows "\<exists>dl t'. P dl \<and>
           power_scaling_loop env self (Suc k) t n = (Return (clamp_to_dataset n dl), t')"
proof -
  from assms(1) have "search_ready P self (collect_garbage t) n"
    by simp
  from try_loop_run_ready [OF this assms(2)] assms(3) obtain t2 where
    run: "try_loop_run env self (collect_garbage t) = (Raise (TrialError (RuntimeError True)), t2)"
    and r2: "search_ready P self t2 n"
    by auto
  from r2 have "search_ready P self (collect_garbage t2) n"
    by simp
  from adjust_batch_size_ready [OF this, of 1 None] obtain dl t4 where
    "P dl" "adjust_batch_size self (collect_garbage t2) 1 None
              = (Return (clamp_to_dataset n dl, clamp_to_dataset n dl \<noteq> n), t4)"
    by (auto simp: py_int_same)
  with run show ?thesis
    by (auto simp: Let_def)
qed

text \<open>
  C1, as the source has it. On an out-of-memory error \<^verbatim>\<open>_run_power_scaling\<close> calls
  \<^verbatim>\<open>self._adjust_batch_size(trainer)\<close> with the default factor \<^verbatim>\<open>1.0\<close> and no value,
  which writes the size that has just failed back. With the initial value 2, trials
  that succeed up to 255 and fail from 256 on, and no dataset ceiling, the sizes 2, 4,
  ..., 128 succeed, 256 fails, and the search returns 256, a size at which the trial
  runs out of memory, and leaves it in the model.
\<close>

theorem power_scaling_returns_failed_size:
  "(let res = scale_batch_size (simulated_env ''batch_size'' (oom_above 255) None)
                (example_finder power 2 25) (example_trainer Fit TRAINING 2 None)
    in fst res = Return () \<and> optimal_batch_size (fst (snd res)) = 256 \<and>
       lightning_getattr (lightning_module (snd (snd res))) ''batch_size'' = Return 256 \<and>
       oom_above 255 256 = Some (RuntimeError True) \<and> oom_above 255 128 = None)"
  by code_simp

section \<open>The growth strategy up to the dataset ceiling\<close>

lemma clamp_to_dataset_sized: "sized L dl \<Longrightarrow> clamp_to_dataset n dl = min n (int L)"
  by (auto simp: sized_def clamp_to_dataset_eq)

lemma py_int_double: "py_int (of_int n * 2) = 2 * n"
proof -
  have "(of_int n :: rat) * 2 = of_int (2 * n)" by simp
  then have "\<lfloor>(of_int n :: rat) * 2\<rfloor> = 2 * n"
    by (simp only: floor_of_int)
  with py_int_floor [of 2 n] show ?thesis by simp
qed

lemma min_double_pow:
  assumes "1 \<le> n" and "0 \<le> (L::int)"
  shows "min (min (2 * n) L * 2 ^ k) L = min (n * 2 ^ Suc k) L"
proof (cases "2 * n \<le> L")
  case True
  then show ?thesis by (simp add: mult.assoc mult.commute)
next
  case False
  have p: "(1::int) \<le> 2 ^ k" by simp
  from assms(2) p have a: "L \<le> L * 2 ^ k"
    using mult_left_mono [of 1 "2 ^ k" L] by simp
  from assms(1) p have "2 * n \<le> 2 * n * 2 ^ k"
    using mult_left_mono [of 1 "2 ^ k" "2 * n"] by simp
  with False have b: "L \<le> n * 2 ^ Suc k"
    by (simp add: mult.assoc mult.commute mult.left_commute)
  from False a b show ?thesis by (simp add: min_def)
qed

lemma power_scaling_loop_no_failure:
  assumes env: "dataloaders_satisfy (sized L) env"
    and ok: "trials_fail_by env (batch_arg_name self) never_fails"
  shows "search_ready (sized L) self t n \<Longrightarrow> 1 \<le> n \<Longrightarrow> n \<le> int L \<Longrightarrow>
         \<exists>t'. power_scaling_loop env self k t n = (Return (min (n * 2 ^ k) (int L)), t')"
proof (induction k arbitrary: t n)
  case 0
  then show ?case by simp
next
  case (Suc k)
  from Suc.prems(1) have "search_ready (sized L) self (collect_garbage t) n"
    by simp
  from try_loop_run_ready [OF this ok] obtain t2 where
    run: "try_loop_run env self (collect_garbage t) = (Return (), t2)"
    and r2: "search_ready (sized L) self t2 n"
    by (auto simp: never_fails_def)
  let ?N = "min (2 * n) (int L)"
  from adjust_batch_size_ready [OF r2, of 2 None] obtain t3 where
    adj: "adjust_batch_size self t2 2 None = (Return (?N, ?N \<noteq> n), t3)"
    and r3: "search_ready (sized L) self t3 ?N"
    by (auto simp: clamp_to_dataset_sized py_int_double)
  show ?case
  proof (cases "?N = n")
    case True
    with Suc.prems(2,3) have "n = int L" by (simp add: min_def split: if_splits)
    moreover have "(1::int) \<le> 2 ^ Suc k"
      by (rule one_le_power) simp
    then have "int L \<le> int L * 2 ^ Suc k"
      using mult_left_mono [of 1 "2 ^ Suc k" "int L"] by simp
    ultimately have "min (n * 2 ^ Suc k) (int L) = ?N"
      using True by (simp add: min_def)
    with run adj True show ?thesis
      by (simp add: Let_def)
  next
    case False
    from reset_dataloaders_ready [OF r3 env] obtain t4 where
      reset: "reset_dataloaders env t3 = (Return (), t4)"
      and r4: "search_ready (sized L) self t4 ?N"
      by blast
    from Suc.prems(2,3) have "1 \<le> ?N" "?N \<le> int L"
      by simp_all
    from Suc.IH [OF r4 this] obtain t' where
      "power_scaling_loop env self k t4 ?N = (Return (min (?N * 2 ^ k) (int L)), t')"
      by blast
    moreover have "min (?N * 2 ^ k) (int L) = min (n * 2 ^ Suc k) (int L)"
      using min_double_pow [OF Suc.prems(2), of "int L" k] by simp
    ultimately show ?thesis
      using run adj False reset by (simp add: Let_def)
  qed
qed

lemma dump_params_Return:
  assumes "current_loop t = Return lp"
  shows "\<exists>self1. dump_params self t = (Return (), self1) \<and>
           dumped_loop_state_dict (dumped self1) \<noteq> None"
  using assms unfolding dump_params_def current_loop_def
  by (auto simp: Let_def split: if_splits option.splits)

lemma reset_params_Return:
  assumes "current_loop t = Return lp"
  shows "\<exists>t2. reset_params self t = (Return (), t2) \<and> state_fn t2 = state_fn t \<and>
           state_stage t2 = state_stage t \<and> lightning_module t2 = lightning_module t \<and>
           train_dataloader t2 = train_dataloader t \<and> eval_dataloaders t2 = eval_dataloaders t"
  using assms unfolding reset_params_def current_loop_def
  by (auto simp: Let_def set_loop_def split: if_splits option.splits)

text \<open>Once the settings are saved and overridden and the strategy has returned, the rest of
  \<^verbatim>\<open>scale_batch_size\<close> cannot fail.\<close>

lemma scale_batch_size_runs:
  assumes nf: "\<not> fast_dev_run t"
    and dump: "dump_params self (save_checkpoint t (ckpt_path env t)) = (Return (), self1)"
    and reset: "reset_params self1 (save_checkpoint t (ckpt_path env t)) = (Return (), t2)"
    and adj: "adjust_batch_size self1 (progress_bar_set False t2) 1 (Some (init_val self1)) = (Return (n0, c0), t4)"
    and search: "(case mode self1 of power \<Rightarrow> run_power_scaling env self1 t4 n0
                       | binsearch \<Rightarrow> run_binary_scaling env self1 t4 n0) = (Return n, t5)"
  shows "\<exists>t'. scale_batch_size env self t =
           ((if early_exit self1 then Raise TunerExitException else Return ()),
            self1\<lparr>optimal_batch_size := n\<rparr>, t')"
proof -
  obtain r7 t7 where restore: "restore_params self1 (collect_garbage t5) = (r7, t7)"
    by (cases "restore_params self1 (collect_garbage t5)")
  note kept = settings_kept_until_restore(2) [OF adj search]
  from restore_after_search [OF dump reset kept restore]
  have r7: "r7 = Return ()" and c7: "checkpoints t7 = checkpoints (collect_garbage t5)"
    by simp_all
  from kept reset_params_checkpoints [OF reset]
  have "checkpoints (collect_garbage t5) (ckpt_path env t) = Some (weights (lightning_module t))"
    by (simp add: settings_kept_def)
  with c7 have "checkpoints (progress_bar_set True t7) (ckpt_path env t)
      = Some (weights (lightning_module t))"
    by (simp add: progress_bar_set_def split: option.splits)
  then obtain t9 where
    ckpt: "checkpoint_restore (progress_bar_set True t7) (ckpt_path env t) = (Return (), t9)"
    by (simp add: checkpoint_restore_def)
  show ?thesis
    unfolding scale_batch_size_def
    by (simp add: nf dump reset adj search restore r7 ckpt Let_def)
qed

lemma search_ready_after_reset:
  assumes "current_loop t = Return lp"
    and "lightning_getattr (lightning_module t) (batch_arg_name self) = Return b"
    and "relevant_dataloader t = Return dl" and "P dl"
  shows "\<exists>self1 t2.
           dump_params self (save_checkpoint t path) = (Return (), self1) \<and>
           reset_params self1 (save_checkpoint t path) = (Return (), t2) \<and>
           search_ready P self1 (progress_bar_set False t2) b"
proof -
  have cl: "current_loop (save_checkpoint t path) = Return lp"
    using assms(1) by simp
  from dump_params_Return [OF cl, of self] obtain self1 where
    dump: "dump_params self (save_checkpoint t path) = (Return (), self1)"
    and sd: "dumped_loop_state_dict (dumped self1) \<noteq> None"
    by blast
  from reset_params_Return [OF cl, of self1] obtain t2 where
    reset: "reset_params self1 (save_checkpoint t path) = (Return (), t2)"
    and same: "state_fn t2 = state_fn t" "state_stage t2 = state_stage t"
      "lightning_module t2 = lightning_module t"
      "train_dataloader t2 = train_dataloader t" "eval_dataloaders t2 = eval_dataloaders t"
    by (auto simp: save_checkpoint_def)
  let ?t3 = "progress_bar_set False t2"
  have f3: "state_fn ?t3 = state_fn t" "state_stage ?t3 = state_stage t"
    "lightning_module ?t3 = lightning_module t"
    "train_dataloader ?t3 = train_dataloader t" "eval_dataloaders ?t3 = eval_dataloaders t"
    using same by (simp_all add: progress_bar_set_def split: option.splits)
  have "current_loop ?t3 = Return lp"
    using current_loop_same [OF f3(1,2)] assms(1) by simp
  moreover have "relevant_dataloader ?t3 = Return dl"
    using relevant_dataloader_same [OF f3(1,2,4,5)] assms(3) by simp
  moreover have "lightning_getattr (lightning_module ?t3) (batch_arg_name self1) = Return b"
    using dump_params_self [OF dump] assms(2) f3(3) by simp
  ultimately have "search_ready P self1 ?t3 b"
    using sd assms(4) by (simp add: search_ready_def)
  with dump reset show ?thesis by blast
qed

lemma min_pow:
  assumes "1 \<le> n" and "0 \<le> (L::int)"
  shows "min (min n L * 2 ^ k) L = min (n * 2 ^ k) L"
proof (cases "n \<le> L")
  case True
  then show ?thesis by simp
next
  case False
  have p: "(1::int) \<le> 2 ^ k" by simp
  from assms(2) p have a: "L \<le> L * 2 ^ k"
    using mult_left_mono [of 1 "2 ^ k" L] by simp
  from assms(1) p have "n \<le> n * 2 ^ k"
    using mult_left_mono [of 1 "2 ^ k" n] by simp
  with False a show ?thesis by (simp add: min_def)
qed

text \<open>
  C5, as the source has it. Scenario A of the specification (initial value 2, 25 trials,
  a dataset of 1000 samples behind a standard dataloader, no trial ever fails) ends with
  1000, as its second half says; the largest power-of-two-scaled value from 2 that is
  at most 1000 is 512, so the first half of the claim fails on its own example.
\<close>

theorem growth_result_is_not_power_of_two_scaled:
  "(let res = scale_batch_size (simulated_env ''batch_size'' never_fails (Some 1000))
                (example_finder power 2 25) (example_trainer Fit TRAINING 2 (Some 1000))
    in fst res = Return () \<and> optimal_batch_size (fst (snd res)) = 1000 \<and>
       largest_power_of_two_scaled 2 1000 = 512 \<and>
       optimal_batch_size (fst (snd res)) \<noteq> largest_power_of_two_scaled 2 1000)"
  by code_simp

text \<open>
  C5, amended. In growth mode, in a phase with a loop, with the batch size field present,
  every dataloader of knowable length over a dataset of \<open>L \<ge> 1\<close> samples, an initial value
  of at least one and no trial ever failing, the search runs to its end and records
  \<open>min (init_val * 2 ^ max_trials) L\<close>: the doubling stops at the dataset length itself
  (the adjuster then reports no change), or after \<^verbatim>\<open>max_trials\<close> trials.
\<close>

theorem growth_reaches_dataset_ceiling:
  assumes "mode self = power" and "\<not> fast_dev_run t"
    and "current_loop t = Return lp"
    and "lightning_getattr (lightning_module t) (batch_arg_name self) = Return b"
    and "relevant_dataloader t = Return dl" and "sized L dl"
    and "dataloaders_satisfy (sized L) env"
    and "trials_fail_by env (batch_arg_name self) never_fails"
    and "1 \<le> init_val self" and "1 \<le> L"
  shows "\<exists>self' t'. scale_batch_size env self t =
           ((if early_exit self then Raise TunerExitException else Return ()), self', t') \<and>
         optimal_batch_size self' = min (init_val self * 2 ^ nat (max_trials self)) (int L)"
proof -
  let ?path = "ckpt_path env t"
  from search_ready_after_reset [where P = "sized L" and path = ?path, OF assms(3,4,5,6)]
  obtain self1 t2 where
    dump: "dump_params self (save_checkpoint t ?path) = (Return (), self1)"
    and reset: "reset_params self1 (save_checkpoint t ?path) = (Return (), t2)"
    and r3: "search_ready (sized L) self1 (progress_bar_set False t2) b"
    by blast
  note same = dump_params_self [OF dump]
  let ?n0 = "min (init_val self) (int L)"
  from adjust_batch_size_ready [OF r3, of 1 "Some (init_val self1)"] same obtain t4 where
    adj: "adjust_batch_size self1 (progress_bar_set False t2) 1 (Some (init_val self1))
            = (Return (?n0, ?n0 \<noteq> b), t4)"
    and r4: "search_ready (sized L) self1 t4 ?n0"
    by (auto simp: clamp_to_dataset_sized)
  from assms(9,10) have n0: "1 \<le> ?n0" "?n0 \<le> int L"
    by simp_all
  from assms(8) same have ok: "trials_fail_by env (batch_arg_name self1) never_fails"
    by simp
  from power_scaling_loop_no_failure [OF assms(7) ok r4 n0, of "nat (max_trials self1)"] obtain t5
    where "power_scaling_loop env self1 (nat (max_trials self1)) t4 ?n0
             = (Return (min (?n0 * 2 ^ nat (max_trials self1)) (int L)), t5)"
    by blast
  with assms(1) same
  have search: "(case mode self1 of power \<Rightarrow> run_power_scaling env self1 t4 ?n0
                       | binsearch \<Rightarrow> run_binary_scaling env self1 t4 ?n0)
                  = (Return (min (?n0 * 2 ^ nat (max_trials self)) (int L)), t5)"
    by (simp add: run_power_scaling_def)
  from scale_batch_size_runs [OF assms(2) dump reset adj search] same
    min_pow [OF assms(9), of "int L" "nat (max_trials self)"]
  show ?thesis by auto
qed

lemma simulated_env_trials: "trials_fail_by (simulated_env name failure L) name failure"
  by (simp add: trials_fail_by_def simulated_env_def simulated_run_def model_batch_size_def)

lemma standard_dataloader_sized:
  assumes "1 \<le> L"
  shows "sized L (standard_dataloader L b)"
proof -
  have "(L + k - 1) div k \<le> L" for k :: nat
  proof (cases "k = 0")
    case True
    then show ?thesis by simp
  next
    case False
    then have "L \<le> L * k" by simp
    with assms False have "L + k - 1 < L * k + k" by linarith
    then have "L + k - 1 < (L + 1) * k" by simp
    then have "(L + k - 1) div k < L + 1"
      by (rule less_mult_imp_div_less)
    then show ?thesis by simp
  qed
  then show ?thesis
    by (simp add: sized_def standard_dataloader_def)
qed

lemma simulated_env_sized:
  "1 \<le> L \<Longrightarrow> dataloaders_satisfy (sized L) (simulated_env name failure (Some L))"
  by (simp add: dataloaders_satisfy_def simulated_env_def simulated_dataloader_def
      standard_dataloader_sized)

theorem growth_reaches_dataset_ceiling_witness:
  "sized 1000 (standard_dataloader 1000 2) \<and>
   dataloaders_satisfy (sized 1000) (simulated_env ''batch_size'' never_fails (Some 1000)) \<and>
   trials_fail_by (simulated_env ''batch_size'' never_fails (Some 1000)) ''batch_size'' never_fails \<and>
   (\<exists>self' t'. scale_batch_size (simulated_env ''batch_size'' never_fails (Some 1000))
                  (example_finder power 2 25) (example_trainer Fit TRAINING 2 (Some 1000))
                = (Return (), self', t') \<and>
              optimal_batch_size self' = 1000)"
proof -
  let ?T = "example_trainer Fit TRAINING 2 (Some 1000)"
  let ?F = "example_finder power 2 25"
  let ?E = "simulated_env ''batch_size'' never_fails (Some 1000)"
  have F: "mode ?F = power" "batch_arg_name ?F = ''batch_size''" "init_val ?F = 2"
    "max_trials ?F = 25" "\<not> early_exit ?F"
    by (simp_all add: example_finder_def)
  have a: "\<not> fast_dev_run ?T"
    by (simp add: example_trainer_def)
  have b: "current_loop ?T = Return fit_loop"
    by (simp add: current_loop_def example_trainer_def)
  have c: "lightning_getattr (lightning_module ?T) (batch_arg_name ?F) = Return 2"
    by (simp add: F example_trainer_def lightning_getattr_def)
  have d: "relevant_dataloader ?T = Return (standard_dataloader 1000 2)"
    by (simp add: relevant_dataloader_def example_trainer_def simulated_dataloader_def)
  have e: "sized 1000 (standard_dataloader 1000 2)"
    by (rule standard_dataloader_sized) simp
  have f: "dataloaders_satisfy (sized 1000) ?E"
    by (rule simulated_env_sized) simp
  have g: "trials_fail_by ?E (batch_arg_name ?F) never_fails"
    unfolding F by (rule simulated_env_trials)
  have h: "1 \<le> init_val ?F" "(1::nat) \<le> 1000"
    by (simp_all add: F)
  have m: "min (2 * 2 ^ 25) (1000::int) = 1000"
    by simp
  from growth_reaches_dataset_ceiling [OF F(1) a b c d e f g h] e f g show ?thesis
    by (simp add: F m)
qed

section \<open>Growth, then bisection, against a memory threshold\<close>
















end
